theory Spec2Isabelle
  imports Complex_Main "HOL-Library.AList"
begin

section \<open>The client module: credential resolution and the current client\<close>

subsection \<open>Values, exceptions and the ambient world\<close>

text \<open>
  The credential arguments of \<open>Client\<close> and \<open>_iris_client\<close> are documented as \<open>str\<close>
  and default to \<open>None\<close> (telephony) or to the empty string (dashboard). A credential is
  therefore a \<open>string option\<close>; Python's truth test makes \<open>None\<close> and the empty string
  false and every other string true.
\<close>

type_synonym pystr = "string option"

definition truthy :: "pystr \<Rightarrow> bool" where
  "truthy v = (case v of None \<Rightarrow> False | Some s \<Rightarrow> s \<noteq> [])"

text \<open>The builtins \<open>any\<close> and \<open>all\<close> on a tuple of credentials.\<close>

fun py_any :: "pystr list \<Rightarrow> bool" where
  "py_any [] = False"
| "py_any (v # vs) = (truthy v \<or> py_any vs)"

fun py_all :: "pystr list \<Rightarrow> bool" where
  "py_all [] = True"
| "py_all (v # vs) = (truthy v \<and> py_all vs)"

text \<open>
  The exceptions the module raises, each with its message. \<open>Propagated c\<close> is an exception
  of class \<open>c\<close> raised inside \<open>get_creds_from_file\<close> that is not a
  \<open>configparser.Error\<close>: \<open>_load_config\<close> does not catch it.
\<close>

datatype exc = ValueError string | EnvironmentError string | Propagated string

fun exc_kind :: "exc \<Rightarrow> string" where
  "exc_kind (ValueError m) = ''ValueError''"
| "exc_kind (EnvironmentError m) = ''EnvironmentError''"
| "exc_kind (Propagated c) = c"

fun message :: "exc \<Rightarrow> string" where
  "message (ValueError m) = m"
| "message (EnvironmentError m) = m"
| "message (Propagated c) = []"

text \<open>
  Modelled from the spec: \<open>RESTClientObject\<close> (module \<open>rest\<close>, not among the sources) is the
  REST client abstraction "constructed with (principalId, (secondaryCredential,
  tertiaryCredential), endpoint?, markupMode?)". An object records the arguments it was
  constructed with; an optional argument that was left out is \<open>None\<close>.
\<close>

record rest_client =
  principal :: pystr
  auth :: "pystr \<times> pystr"
  endpoint :: "string option"
  xml :: "bool option"

text \<open>
  What \<open>get_creds_from_file\<close> (module \<open>utils\<close>, not among the sources) does on a path:
  it returns three values, raises \<open>configparser.Error\<close>, or raises something else.
\<close>

datatype creds_result =
  Creds pystr pystr pystr
| Configparser_Error
| Other_Error string

text \<open>
  Everything the module reads or writes besides its arguments: \<open>os.environ\<close>, the file
  system as seen through \<open>file_exists\<close> and \<open>get_creds_from_file\<close>, the attributes of the
  package \<open>bandwidth_sdk\<close>, the module variable \<open>_global_client\<close>, and the client objects
  constructed so far. A client object is referred to by its position in \<open>heap\<close>, so that
  "the same object" and "an equal object" are different things.

  \<open>obj_truth h\<close> is the outcome of Python's truth test on the object behind the reference
  \<open>h\<close>. The test is decided by the class of the object (an object is true unless its class
  defines \<open>__bool__\<close> or \<open>__len__\<close> otherwise); the class \<open>RESTClientObject\<close> is not among
  the sources, and \<open>set_client\<close> stores whatever object it is given, so the outcome is a
  component of the world and not fixed here.
\<close>

record world =
  environ :: "string \<rightharpoonup> string"
  file_exists :: "string \<Rightarrow> bool"
  get_creds_from_file :: "string \<Rightarrow> creds_result"
  sdk_user_id :: pystr
  sdk_api_token :: pystr
  sdk_api_secret :: pystr
  sdk_account_id :: pystr
  sdk_username :: pystr
  sdk_password :: pystr
  sdk_iris_endpoint :: "string option"
  global_client :: "nat option"
  heap :: "rest_client list"
  obj_truth :: "nat \<Rightarrow> bool"

definition RESTClientObject ::
  "pystr \<Rightarrow> pystr \<times> pystr \<Rightarrow> string option \<Rightarrow> bool option \<Rightarrow> world \<Rightarrow> nat \<times> world" where
  "RESTClientObject p a e x w =
     (length (heap w),
      w\<lparr>heap := heap w @ [\<lparr>principal = p, auth = a, endpoint = e, xml = x\<rparr>]\<rparr>)"

definition lookup :: "world \<Rightarrow> nat \<Rightarrow> rest_client option" where
  "lookup w h = (if h < length (heap w) then Some (heap w ! h) else None)"

definition credentials :: "rest_client \<Rightarrow> pystr \<times> pystr \<times> pystr" where
  "credentials c = (principal c, fst (auth c), snd (auth c))"

subsection \<open>Help texts and docstrings\<close>

definition HELP_MISSING_ENV_VARS :: string where
  "HELP_MISSING_ENV_VARS =
     ''If BANDWIDTH_USER_ID is defined in the environment, '' @
     ''BANDWIDTH_API_TOKEN and BANDWIDTH_API_SECRET must also be defined''"

definition HELP_MISSING_PARAMS :: string where
  "HELP_MISSING_PARAMS =
     ''Creating Client with arguments requires: Client(user_id, token, secret) '' @
     ''where user_id, token, secret are from your Catapult account.''"

text \<open>The two texts with a \<open>%s\<close> are functions of the path that is substituted.\<close>

definition HELP_CONFIG_FORMAT :: "string \<Rightarrow> string" where
  "HELP_CONFIG_FORMAT config_path =
     ''The config file: <'' @ config_path @ ''> is either not formatted correctly or is missing '' @
     ''values. If that's the wrong config file, make sure '' @
     ''BANDWIDTH_CONFIG_FILE is set correctly or not set if you're trying to '' @
     ''use .bndsdkrc.''"

definition HELP_CONFIG_FILE_MISSING :: "string \<Rightarrow> string" where
  "HELP_CONFIG_FILE_MISSING config_path =
     ''The config file specified: <'' @ config_path @ ''> could not be found. If that's the'' @
     '' wrong config file, make sure BANDWIDTH_CONFIG_FILE is set correctly or'' @
     '' not set if you're trying to use .bndsdkrc.''"

definition HELP_MISSING_IRIS_ENV_VARS :: string where
  "HELP_MISSING_IRIS_ENV_VARS =
     ''If BANDWIDTH_ACCOUNT_ID is defined in the environment, '' @
     ''BANDWIDTH_USERNAME and BANDWIDTH_PASSWORD must also be defined''"

definition HELP_MISSING_IRIS_PARAMS :: string where
  "HELP_MISSING_IRIS_PARAMS =
     ''Creating iris_client with arguments requires: iris_client(account_id, username, password) '' @
     ''where user_id, token, secret are from your Catapult account.''"

text \<open>The docstrings, with the line breaks and indentation of the source text.\<close>

definition Client_doc :: string where
  "Client_doc =
     ''\<newline>'' @
     ''    Initialize the bandwidth sdk client.  This function will attempt to\<newline>'' @
     ''    gather credentials from one of several different locations in the\<newline>'' @
     ''    following order:\<newline>'' @
     ''\<newline>'' @
     ''    1) Included as arguments when creating the client::\<newline>'' @
     ''\<newline>'' @
     ''        bandwidth = bandwidth_sdk.Client(\<newline>'' @
     ''            user_id='u-your-user-id',\<newline>'' @
     ''            token='t-your-token',\<newline>'' @
     ''            secret='your-secret')\<newline>'' @
     ''\<newline>'' @
     ''    2) environment variables::\<newline>'' @
     ''\<newline>'' @
     ''        $ export BANDWIDTH_USER_ID=u-your-user-id\<newline>'' @
     ''        $ export BANDWIDTH_API_TOKEN=t-your-token\<newline>'' @
     ''        $ export BANDWIDTH_API_SECRET=your-secret\<newline>'' @
     ''\<newline>'' @
     ''    3) Lastly the sdk will attempt to load credentials from a configuration\<newline>'' @
     ''       file specified with env var BANDWIDTH_CONFIG_FILE else .bndsdkrc is\<newline>'' @
     ''       searched for in the current directory. The config file has the following\<newline>'' @
     ''       format::\<newline>'' @
     ''\<newline>'' @
     ''        $ export BANDWIDTH_CONFIG_FILE=/home/user/.bndsdkrc\<newline>'' @
     ''        $ cat /home/user/.bndsdkrc\<newline>'' @
     ''        [catapult]\<newline>'' @
     ''        user_id = u-your-user-id\<newline>'' @
     ''        token = t-your-token\<newline>'' @
     ''        secret = your-secret\<newline>'' @
     ''\<newline>'' @
     ''    :type user_id: str\<newline>'' @
     ''    :param user_id: catapult user id\<newline>'' @
     ''    :type token: str\<newline>'' @
     ''    :param token: catapult token\<newline>'' @
     ''    :type secret: str\<newline>'' @
     ''    :param secret: catapult secret\<newline>'' @
     ''    :rtype: RESTClientObject\<newline>'' @
     ''    :returns: bandwidth rest client\<newline>'' @
     ''    ''"

definition iris_client_doc :: string where
  "iris_client_doc =
     ''\<newline>'' @
     ''    Initialize the bandwidth sdk client for bandwidth dashboard (aka iris) api calls.  This function will attempt to\<newline>'' @
     ''    gather credentials from one of several different locations in the\<newline>'' @
     ''    following order:\<newline>'' @
     ''\<newline>'' @
     ''    1) Included as arguments when creating the client::\<newline>'' @
     ''\<newline>'' @
     ''        bandwidth = bandwidth_sdk.iris_client(\<newline>'' @
     ''            account_id='your-bandwidth-dashboard-account_id',\<newline>'' @
     ''            username='your-bandwidth-dashboard-username',\<newline>'' @
     ''            password='your-bandwidth-dashboard-password')\<newline>'' @
     ''\<newline>'' @
     ''    2) environment variables::\<newline>'' @
     ''\<newline>'' @
     ''        $ export BANDWIDTH_ACCOUNT_ID=your-account-id\<newline>'' @
     ''        $ export BANDWIDTH_USERNAME=t-your-username\<newline>'' @
     ''        $ export BANDWIDTH_PASSWORD=your-password\<newline>'' @
     ''\<newline>'' @
     ''    3) The sdk will attempt to load credentials from a configuration\<newline>'' @
     ''       file specified with env var BANDWIDTH_CONFIG_FILE else .bndsdkrc is\<newline>'' @
     ''       searched for in the current directory. The config file has the following\<newline>'' @
     ''       format::\<newline>'' @
     ''\<newline>'' @
     ''        $ export BANDWIDTH_CONFIG_FILE=/home/user/.bndsdkrc\<newline>'' @
     ''        $ cat /home/user/.bndsdkrc\<newline>'' @
     ''        [catapult]\<newline>'' @
     ''        account_id = dashboard account id\<newline>'' @
     ''        username = dashboard username\<newline>'' @
     ''        password = dashboard password\<newline>'' @
     ''\<newline>'' @
     ''    4) Finally the sdk will look for credentials in a module variable. You can set these as follows:\<newline>'' @
     ''\<newline>'' @
     ''        bandwidth_sdk.account_id='dashboard account id'\<newline>'' @
     ''        bandwidth_sdk.username='dashboard username'\<newline>'' @
     ''        bandwidth_sdk.password='dashboard password'\<newline>'' @
     ''\<newline>'' @
     ''    :type account_id: str\<newline>'' @
     ''    :param account_id: dashboard account id\<newline>'' @
     ''    :type username: str\<newline>'' @
     ''    :param username: dashboard username\<newline>'' @
     ''    :type password: str\<newline>'' @
     ''    :param password: dashboard password\<newline>'' @
     ''    :rtype: RESTClientObject\<newline>'' @
     ''    :returns: bandwidth rest client\<newline>'' @
     ''    ''"

subsection \<open>The resolvers\<close>

text \<open>
  \<open>_load_config\<close>: the three values of the file, with \<open>configparser.Error\<close> turned into
  a \<open>ValueError\<close> that carries the path and the docstring of \<open>Client\<close>.
\<close>

definition load_config :: "world \<Rightarrow> string \<Rightarrow> exc + pystr \<times> pystr \<times> pystr" where
  "load_config w config_path =
     (case get_creds_from_file w config_path of
        Creds a b c \<Rightarrow> Inr (a, b, c)
      | Configparser_Error \<Rightarrow> Inl (ValueError (HELP_CONFIG_FORMAT config_path @ Client_doc))
      | Other_Error c \<Rightarrow> Inl (Propagated c))"

text \<open>
  The last two statements of \<open>Client\<close>: construct the object and make it the global
  client.
\<close>

definition Client_construct :: "pystr \<Rightarrow> pystr \<Rightarrow> pystr \<Rightarrow> world \<Rightarrow> (exc + nat) \<times> world" where
  "Client_construct user_id token secret w =
     (let (h, w') = RESTClientObject user_id (token, secret) None None w
      in (Inr h, w'\<lparr>global_client := Some h\<rparr>))"

definition Client :: "pystr \<Rightarrow> pystr \<Rightarrow> pystr \<Rightarrow> world \<Rightarrow> (exc + nat) \<times> world" where
  "Client user_id token secret w =
     (if py_any [user_id, token, secret] then
        if \<not> py_all [user_id, token, secret] then
          (Inl (ValueError (HELP_MISSING_PARAMS @ Client_doc)), w)
        else Client_construct user_id token secret w
      else if ''BANDWIDTH_USER_ID'' \<in> dom (environ w) then
        let user_id = environ w ''BANDWIDTH_USER_ID'';
            token = environ w ''BANDWIDTH_API_TOKEN'';
            secret = environ w ''BANDWIDTH_API_SECRET''
        in if \<not> py_all [user_id, token, secret] then
             (Inl (EnvironmentError (HELP_MISSING_ENV_VARS @ Client_doc)), w)
           else Client_construct user_id token secret w
      else if ''BANDWIDTH_CONFIG_FILE'' \<in> dom (environ w) then
        let config_path = the (environ w ''BANDWIDTH_CONFIG_FILE'')
        in if file_exists w config_path then
             (case load_config w config_path of
                Inl e \<Rightarrow> (Inl e, w)
              | Inr (user_id, token, secret) \<Rightarrow> Client_construct user_id token secret w)
           else (Inl (ValueError (HELP_CONFIG_FILE_MISSING config_path @ Client_doc)), w)
      else if file_exists w ''.bndsdkrc'' then
        (case load_config w ''.bndsdkrc'' of
           Inl e \<Rightarrow> (Inl e, w)
         | Inr (user_id, token, secret) \<Rightarrow> Client_construct user_id token secret w)
      else if sdk_user_id w \<noteq> None then
        Client_construct (sdk_user_id w) (sdk_api_token w) (sdk_api_secret w) w
      else (Inl (ValueError (''No configuration provided. '' @ Client_doc)), w))"

definition IRIS_ENDPOINT :: string where
  "IRIS_ENDPOINT = ''https://dashboard.bandwidth.com:443/v1.0/''"

text \<open>The three assignments to the attributes of \<open>bandwidth_sdk\<close>.\<close>

definition set_sdk :: "pystr \<Rightarrow> pystr \<Rightarrow> pystr \<Rightarrow> world \<Rightarrow> world" where
  "set_sdk account_id username password w =
     w\<lparr>sdk_account_id := account_id, sdk_username := username, sdk_password := password\<rparr>"

text \<open>
  The end of \<open>_iris_client\<close>: the endpoint is \<open>bandwidth_sdk.iris_endpoint\<close> unless that is
  \<open>None\<close>, and the object is returned without being stored anywhere.
\<close>

definition iris_construct :: "pystr \<Rightarrow> pystr \<Rightarrow> pystr \<Rightarrow> world \<Rightarrow> (exc + nat) \<times> world" where
  "iris_construct account_id username password w =
     (let endpoint' = (if sdk_iris_endpoint w \<noteq> None then the (sdk_iris_endpoint w)
                       else IRIS_ENDPOINT);
          (h, w') = RESTClientObject account_id (username, password) (Some endpoint') (Some True) w
      in (Inr h, w'))"

text \<open>
  \<open>_iris_client\<close>. In the environment branch the three variables are read into the
  locals \<open>user_id\<close>, \<open>token\<close> and \<open>secret\<close>, which are tested; what is stored and passed
  on is \<open>account_id\<close>, \<open>username\<close> and \<open>password\<close>, that is, the arguments.
\<close>

definition iris_client :: "pystr \<Rightarrow> pystr \<Rightarrow> pystr \<Rightarrow> world \<Rightarrow> (exc + nat) \<times> world" where
  "iris_client account_id username password w =
     (if py_any [account_id, username, password] then
        if \<not> py_all [account_id, username, password] then
          (Inl (ValueError (HELP_MISSING_PARAMS @ iris_client_doc)), w)
        else iris_construct account_id username password
               (set_sdk account_id username password w)
      else if ''BANDWIDTH_ACCOUNT_ID'' \<in> dom (environ w) then
        let user_id = environ w ''BANDWIDTH_ACCOUNT_ID'';
            token = environ w ''BANDWIDTH_USERNAME'';
            secret = environ w ''BANDWIDTH_PASSWORD''
        in if \<not> py_all [user_id, token, secret] then
             (Inl (EnvironmentError (HELP_MISSING_IRIS_ENV_VARS @ iris_client_doc)), w)
           else iris_construct account_id username password
                  (set_sdk account_id username password w)
      else if ''BANDWIDTH_CONFIG_FILE'' \<in> dom (environ w) then
        let config_path = the (environ w ''BANDWIDTH_CONFIG_FILE'')
        in if file_exists w config_path then
             (case load_config w config_path of
                Inl e \<Rightarrow> (Inl e, w)
              | Inr (account_id, username, password) \<Rightarrow>
                  iris_construct account_id username password
                    (set_sdk account_id username password w))
           else (Inl (ValueError (HELP_CONFIG_FILE_MISSING config_path @ iris_client_doc)), w)
      else if file_exists w ''.bndsdkrc'' then
        (case load_config w ''.bndsdkrc'' of
           Inl e \<Rightarrow> (Inl e, w)
         | Inr (account_id, username, password) \<Rightarrow>
             iris_construct account_id username password
               (set_sdk account_id username password w))
      else if sdk_account_id w \<noteq> None then
        let account_id = sdk_account_id w;
            username = sdk_username w;
            password = sdk_password w
        in if \<not> py_all [account_id, username, password] then
             (Inl (EnvironmentError (HELP_MISSING_ENV_VARS @ iris_client_doc)), w)
           else iris_construct account_id username password w
      else (Inl (ValueError (''No configuration provided. '' @ iris_client_doc)), w))"

subsection \<open>The current client\<close>

text \<open>
  \<open>get_client\<close> tests the global client for truth with \<open>if not _global_client\<close>: \<open>None\<close>
  is false, and an object is what its truth test says. If the test is false,
  \<open>get_client\<close> calls \<open>Client()\<close>, whose parameters default to \<open>None\<close>.
  \<open>get_iris_client\<close> calls \<open>_iris_client()\<close>, whose parameters default to the empty string.
\<close>

definition truthy_client :: "world \<Rightarrow> nat option \<Rightarrow> bool" where
  "truthy_client w c = (case c of None \<Rightarrow> False | Some h \<Rightarrow> obj_truth w h)"

definition get_client :: "world \<Rightarrow> (exc + nat) \<times> world" where
  "get_client w =
     (if \<not> truthy_client w (global_client w) then Client None None None w
      else (Inr (the (global_client w)), w))"

definition get_iris_client :: "world \<Rightarrow> (exc + nat) \<times> world" where
  "get_iris_client w = iris_client (Some []) (Some []) (Some []) w"

definition set_client :: "nat option \<Rightarrow> world \<Rightarrow> nat option \<times> world" where
  "set_client client w = (global_client w, w\<lparr>global_client := client\<rparr>)"

section \<open>The events module: decoding webhook payloads\<close>

subsection \<open>Payload values and mappings\<close>

text \<open>
  A payload value is what \<open>json.loads\<close> can produce (a float stands for the real number
  it denotes). A mapping is a list of key-value pairs in insertion order, with the keys
  distinct; \<open>d[k] = v\<close> is \<open>AList.update k v d\<close>, which overwrites in place or appends.
\<close>

datatype pyval =
  PNone
| PBool bool
| PInt int
| PFloat real
| PStr string
| PList "pyval list"
| PDict "(string \<times> pyval) list"

type_synonym dict = "(string \<times> pyval) list"

text \<open>Python's truth test, as used by \<open>if from_:\<close>.\<close>

fun py_bool :: "pyval \<Rightarrow> bool" where
  "py_bool PNone = False"
| "py_bool (PBool b) = b"
| "py_bool (PInt i) = (i \<noteq> 0)"
| "py_bool (PFloat r) = (r \<noteq> 0)"
| "py_bool (PStr s) = (s \<noteq> [])"
| "py_bool (PList xs) = (xs \<noteq> [])"
| "py_bool (PDict d) = (d \<noteq> [])"

text \<open>Lists and mappings cannot be keys of a Python dictionary.\<close>

fun hashable :: "pyval \<Rightarrow> bool" where
  "hashable (PList xs) = False"
| "hashable (PDict d) = False"
| "hashable v = True"

text \<open>
  The exceptions of this module. \<open>ValueError_unknown_event d\<close> is
  \<open>ValueError('Unknown event {}'.format(d))\<close>: the text of the message is the prefix
  followed by the printed form of the mapping \<open>d\<close>, which is kept here as \<open>d\<close> itself.
  \<open>TypeError_unhashable\<close> is what a dictionary lookup raises on a list or a mapping,
  \<open>TypeError_multiple_values\<close> what a call raises when a keyword has the name of a
  positional parameter that is already bound, \<open>AttributeError a\<close> what reading a missing
  attribute \<open>a\<close> raises, and \<open>Decode_error c\<close> an exception of class \<open>c\<close> from
  \<open>data.decode\<close> or \<open>json.loads\<close>.
\<close>

datatype event_exc =
  ValueError_unknown_event dict
| TypeError_unhashable
| TypeError_multiple_values
| AttributeError string
| Decode_error string

fun event_exc_kind :: "event_exc \<Rightarrow> string" where
  "event_exc_kind (ValueError_unknown_event d) = ''ValueError''"
| "event_exc_kind TypeError_unhashable = ''TypeError''"
| "event_exc_kind TypeError_multiple_values = ''TypeError''"
| "event_exc_kind (AttributeError a) = ''AttributeError''"
| "event_exc_kind (Decode_error c) = c"

subsection \<open>Key normalisation\<close>

definition uppercase :: string where
  "uppercase = ''ABCDEFGHIJKLMNOPQRSTUVWXYZ''"

definition lowercase :: string where
  "lowercase = ''abcdefghijklmnopqrstuvwxyz''"

text \<open>
  Modelled from the spec: \<open>from_api\<close> (module \<open>utils\<close>, not among the sources) is the step
  "Normalize all keys: convert from whatever casing/naming convention the wire format
  uses into the convention this system's field names use (e.g., snake vs camel case
  translation) - this is a pure key-rewriting step applied uniformly regardless of event
  type". Each capital letter of a key becomes an underscore and the small letter; values
  are not touched; of two keys that are rewritten to the same key the later one wins.
\<close>

fun underscoreize :: "string \<Rightarrow> string" where
  "underscoreize [] = []"
| "underscoreize (c # cs) =
     (case map_of (zip uppercase lowercase) c of
        Some l \<Rightarrow> CHR ''_'' # l # underscoreize cs
      | None \<Rightarrow> c # underscoreize cs)"

definition from_api :: "dict \<Rightarrow> dict" where
  "from_api data = fold (\<lambda>(k, v) acc. AList.update (underscoreize k) v acc) data []"

subsection \<open>Event classes\<close>

datatype event_cls =
  HangupCallEvent
| AnswerCallEvent
| IncomingCallEvent
| GatherCallEvent
| SpeakCallEvent
| PlaybackCallEvent
| ErrorCallEvent
| TimeoutCallEvent
| RecordingCallEvent
| SmsEvent
| ConferenceEvent
| ConferenceMemberEvent
| ConferenceSpeakEvent
| ConferencePlaybackEvent
| DtmfCallEvent

text \<open>The class attribute \<open>_fields\<close> of each class.\<close>

fun fields :: "event_cls \<Rightarrow> string list" where
  "fields IncomingCallEvent =
     [''call_id'', ''event_type'', ''from_'', ''to'', ''call_uri'', ''call_state'', ''time'',
      ''application_id'', ''tag'']"
| "fields AnswerCallEvent =
     [''call_id'', ''event_type'', ''from_'', ''to'', ''call_uri'', ''call_state'', ''time'',
      ''application_id'', ''tag'']"
| "fields HangupCallEvent =
     [''call_id'', ''event_type'', ''from_'', ''to'', ''call_uri'', ''call_state'', ''time'',
      ''cause'', ''tag'']"
| "fields PlaybackCallEvent =
     [''call_id'', ''event_type'', ''from_'', ''to'', ''call_uri'', ''tag'', ''time'']"
| "fields GatherCallEvent =
     [''call_id'', ''event_type'', ''state'', ''digits'', ''tag'', ''time'', ''gather_id'',
      ''reason'']"
| "fields DtmfCallEvent =
     [''event_type'', ''call_id'', ''call_uri'', ''time'', ''dtmf_digit'', ''dtmf_duration'',
      ''tag'']"
| "fields SpeakCallEvent =
     [''call_id'', ''event_type'', ''status'', ''state'', ''call_uri'', ''tag'', ''time'']"
| "fields ErrorCallEvent =
     [''call_id'', ''event_type'', ''from_'', ''to'', ''call_uri'', ''call_state'', ''time'',
      ''tag'']"
| "fields TimeoutCallEvent =
     [''call_id'', ''event_type'', ''from_'', ''to'', ''call_uri'', ''time'', ''tag'']"
| "fields RecordingCallEvent =
     [''call_id'', ''event_type'', ''recording_id'', ''recording_uri'', ''state'', ''status'',
      ''start_time'', ''end_time'', ''tag'']"
| "fields SmsEvent =
     [''event_type'', ''direction'', ''message_id'', ''message_uri'', ''from_'', ''to'',
      ''text'', ''application_id'', ''time'', ''state'']"
| "fields ConferenceEvent =
     [''event_type'', ''conference_id'', ''conference_uri'', ''status'', ''created_time'',
      ''completed_time'']"
| "fields ConferenceMemberEvent =
     [''event_type'', ''conference_id'', ''call_id'', ''active_members'', ''hold'',
      ''member_id'', ''member_uri'', ''mute'', ''state'', ''time'']"
| "fields ConferencePlaybackEvent =
     [''event_type'', ''conference_id'', ''conference_uri'', ''status'', ''time'']"
| "fields ConferenceSpeakEvent =
     [''event_type'', ''conference_id'', ''conference_uri'', ''status'', ''time'']"

text \<open>
  The data attributes that a class or one of its bases sets to \<open>None\<close> in its body:
  \<open>call_id\<close> comes from \<open>EventType\<close>, \<open>conference_id\<close> from \<open>ConferenceEventMixin\<close>.
  Reading such an attribute of an instance that does not have it gives \<open>None\<close>.
\<close>

fun class_attrs :: "event_cls \<Rightarrow> string list" where
  "class_attrs IncomingCallEvent =
     [''event_type'', ''from_'', ''to'', ''call_uri'', ''call_state'', ''application_id'',
      ''time'', ''tag'', ''call_id'']"
| "class_attrs AnswerCallEvent =
     [''event_type'', ''from_'', ''to'', ''call_uri'', ''call_state'', ''application_id'',
      ''time'', ''tag'', ''call_id'']"
| "class_attrs HangupCallEvent =
     [''event_type'', ''from_'', ''to'', ''call_uri'', ''call_state'', ''cause'', ''time'',
      ''tag'', ''call_id'']"
| "class_attrs PlaybackCallEvent =
     [''event_type'', ''call_id'', ''call_uri'', ''status'', ''time'', ''tag'']"
| "class_attrs GatherCallEvent =
     [''event_type'', ''call_id'', ''time'', ''reason'', ''gather_id'', ''state'', ''digits'',
      ''tag'']"
| "class_attrs DtmfCallEvent =
     [''event_type'', ''call_id'', ''call_uri'', ''time'', ''dtmf_digit'', ''dtmf_duration'',
      ''tag'']"
| "class_attrs SpeakCallEvent =
     [''event_type'', ''call_id'', ''call_uri'', ''status'', ''state'', ''time'', ''tag'']"
| "class_attrs ErrorCallEvent =
     [''event_type'', ''from_'', ''to'', ''call_id'', ''call_uri'', ''call_state'', ''time'',
      ''tag'']"
| "class_attrs TimeoutCallEvent =
     [''event_type'', ''from_'', ''to'', ''call_id'', ''call_uri'', ''time'', ''tag'']"
| "class_attrs RecordingCallEvent =
     [''event_type'', ''call_id'', ''recording_id'', ''recording_uri'', ''state'', ''status'',
      ''start_time'', ''end_time'', ''tag'']"
| "class_attrs SmsEvent =
     [''event_type'', ''direction'', ''message_id'', ''message_uri'', ''from_'', ''to'',
      ''text'', ''application_id'', ''time'', ''state'', ''call_id'']"
| "class_attrs ConferenceEvent =
     [''event_type'', ''conference_id'', ''conference_uri'', ''status'', ''created_time'',
      ''completed_time'', ''call_id'']"
| "class_attrs ConferenceMemberEvent =
     [''event_type'', ''call_id'', ''conference_id'', ''active_members'', ''hold'',
      ''member_id'', ''member_uri'', ''mute'', ''state'', ''time'']"
| "class_attrs ConferencePlaybackEvent =
     [''event_type'', ''conference_id'', ''conference_uri'', ''status'', ''time'', ''call_id'']"
| "class_attrs ConferenceSpeakEvent =
     [''event_type'', ''conference_id'', ''conference_uri'', ''status'', ''time'', ''call_id'']"

text \<open>The registry \<open>_events\<close>.\<close>

definition events :: "(string \<times> event_cls) list" where
  "events =
     [(''hangup'', HangupCallEvent),
      (''answer'', AnswerCallEvent),
      (''incomingcall'', IncomingCallEvent),
      (''gather'', GatherCallEvent),
      (''speak'', SpeakCallEvent),
      (''playback'', PlaybackCallEvent),
      (''error'', ErrorCallEvent),
      (''timeout'', TimeoutCallEvent),
      (''recording'', RecordingCallEvent),
      (''sms'', SmsEvent),
      (''conference'', ConferenceEvent),
      (''conference-member'', ConferenceMemberEvent),
      (''conference-speak'', ConferenceSpeakEvent),
      (''conference-playback'', ConferencePlaybackEvent),
      (''dtmf'', DtmfCallEvent)]"

text \<open>
  \<open>_events.get(v)\<close>: a key that is not hashable raises, a hashable key that is not a
  string of the registry gives \<open>None\<close>.
\<close>

definition events_get :: "pyval \<Rightarrow> event_exc + event_cls option" where
  "events_get v =
     (if \<not> hashable v then Inl TypeError_unhashable
      else case v of PStr s \<Rightarrow> Inr (map_of events s) | _ \<Rightarrow> Inr None)"

subsection \<open>Event instances\<close>

text \<open>
  An instance is its class and the attributes set on the instance itself by \<open>setattr\<close>.
\<close>

datatype event = Event (cls: event_cls) (attrs: dict)

text \<open>
  The body of \<open>EventType.__init__\<close>, given the keyword mapping: \<open>from\<close> is popped; if its
  value is true it is stored under \<open>from_\<close>; then every pair whose key is in \<open>_fields\<close>
  is set on the instance.
\<close>

definition EventType_init :: "event_cls \<Rightarrow> dict \<Rightarrow> event" where
  "EventType_init c kwargs =
     (let from' = (case map_of kwargs ''from'' of None \<Rightarrow> PNone | Some v \<Rightarrow> v);
          kwargs1 = AList.delete ''from'' kwargs;
          kwargs2 = (if py_bool from' then AList.update ''from_'' from' kwargs1 else kwargs1)
      in Event c
           (fold (\<lambda>(attr, val) d. if attr \<in> set (fields c) then AList.update attr val d else d)
              kwargs2 []))"

text \<open>
  The call \<open>event_cls(**event_as_dict)\<close>. The first parameter of \<open>__init__\<close> is \<open>self\<close>
  and is bound to the new instance, so a keyword of that name is a second value for it
  and the call raises before the body runs.
\<close>

definition new_event :: "event_cls \<Rightarrow> dict \<Rightarrow> event_exc + event" where
  "new_event c event_as_dict =
     (if ''self'' \<in> fst ` set event_as_dict then Inl TypeError_multiple_values
      else Inr (EventType_init c event_as_dict))"

text \<open>
  \<open>Event.create(data=None, **kwargs)\<close>. The argument \<open>data\<close> is \<open>None\<close>, or it is a byte
  string, which stands here for what \<open>json.loads(data.decode('utf-8'))\<close> makes of it: the
  decoded mapping, or the exception raised.
\<close>

definition event_as_dict :: "(event_exc + dict) option \<Rightarrow> dict \<Rightarrow> event_exc + dict" where
  "event_as_dict data kwargs =
     (case data of
        Some (Inl e) \<Rightarrow> Inl e
      | Some (Inr api_data) \<Rightarrow> Inr (from_api api_data)
      | None \<Rightarrow> Inr (from_api kwargs))"

definition create :: "(event_exc + dict) option \<Rightarrow> dict \<Rightarrow> event_exc + event" where
  "create data kwargs =
     (case event_as_dict data kwargs of
        Inl e \<Rightarrow> Inl e
      | Inr d \<Rightarrow>
          (case events_get (case map_of d ''event_type'' of None \<Rightarrow> PStr [] | Some v \<Rightarrow> v) of
             Inl e \<Rightarrow> Inl e
           | Inr None \<Rightarrow> Inl (ValueError_unknown_event d)
           | Inr (Some event_cls) \<Rightarrow> new_event event_cls d))"

text \<open>
  Reading a data attribute: the instance's own value if it has one, else the \<open>None\<close> of
  the class, else \<open>AttributeError\<close>.
\<close>

definition getattr :: "event \<Rightarrow> string \<Rightarrow> event_exc + pyval" where
  "getattr ev a =
     (case map_of (attrs ev) a of
        Some v \<Rightarrow> Inr v
      | None \<Rightarrow> if a \<in> set (class_attrs (cls ev)) then Inr PNone else Inl (AttributeError a))"

text \<open>
  The property \<open>done\<close> of \<open>PlaybackCallEvent\<close> and \<open>SpeakCallEvent\<close>:
  \<open>self.status == 'done'\<close>.
\<close>

definition done_property :: "event \<Rightarrow> event_exc + bool" where
  "done_property ev =
     (if cls ev = PlaybackCallEvent \<or> cls ev = SpeakCallEvent then
        (case getattr ev ''status'' of
           Inl e \<Rightarrow> Inl e
         | Inr v \<Rightarrow> Inr (v = PStr ''done''))
      else Inl (AttributeError ''done''))"

section \<open>Observations and sample worlds\<close>

text \<open>
  What a call of a resolver gave back: the exception, or the object that the returned
  reference denotes in the world after the call.
\<close>

definition returned :: "(exc + nat) \<times> world \<Rightarrow> exc + rest_client option" where
  "returned r = (case fst r of Inl e \<Rightarrow> Inl e | Inr h \<Rightarrow> Inr (lookup (snd r) h))"

text \<open>The class of the exception that a call raised, if it raised one.\<close>

definition raised_kind :: "(exc + nat) \<times> world \<Rightarrow> string option" where
  "raised_kind r = (case fst r of Inl e \<Rightarrow> Some (exc_kind e) | Inr h \<Rightarrow> None)"

text \<open>
  A world with nothing in it: no environment variable, no file, no attribute of
  \<open>bandwidth_sdk\<close> set, no client constructed; every object is true.
\<close>

definition world0 :: world where
  "world0 =
     \<lparr>environ = Map.empty, file_exists = (\<lambda>p. False), get_creds_from_file = (\<lambda>p. Configparser_Error),
      sdk_user_id = None, sdk_api_token = None, sdk_api_secret = None,
      sdk_account_id = None, sdk_username = None, sdk_password = None,
      sdk_iris_endpoint = None, global_client = None, heap = [],
      obj_truth = (\<lambda>h. True)\<rparr>"

text \<open>
  A world whose environment holds complete telephony and dashboard credentials and in
  which \<open>bandwidth_sdk.iris_endpoint\<close> is set.
\<close>

definition world_env :: world where
  "world_env =
     world0\<lparr>environ := [''BANDWIDTH_USER_ID'' \<mapsto> ''u-env'', ''BANDWIDTH_API_TOKEN'' \<mapsto> ''t-env'',
                          ''BANDWIDTH_API_SECRET'' \<mapsto> ''s-env'',
                          ''BANDWIDTH_ACCOUNT_ID'' \<mapsto> ''acct'', ''BANDWIDTH_USERNAME'' \<mapsto> ''user'',
                          ''BANDWIDTH_PASSWORD'' \<mapsto> ''pw''],
            sdk_iris_endpoint := Some ''https://example.test/''\<rparr>"

text \<open>A world in which \<open>BANDWIDTH_CONFIG_FILE\<close> names a file that does not exist.\<close>

definition world_missing_file :: world where
  "world_missing_file = world0\<lparr>environ := [''BANDWIDTH_CONFIG_FILE'' \<mapsto> ''/etc/bw.cfg'']\<rparr>"

text \<open>
  A world with a complete environment and one client object, whose class makes its
  instances false in the truth test.
\<close>

definition world_false_handle :: world where
  "world_false_handle =
     world_env\<lparr>heap := [\<lparr>principal = Some ''u-0'', auth = (Some ''t-0'', Some ''s-0''),
                            endpoint = None, xml = None\<rparr>],
                obj_truth := (\<lambda>h. False)\<rparr>"

section \<open>Properties of the client module\<close>

subsection \<open>Construction from explicit arguments\<close>

lemma Client_construct_returned:
  "returned (Client_construct u t s w) =
     Inr (Some \<lparr>principal = u, auth = (t, s), endpoint = None, xml = None\<rparr>)"
  by (simp add: Client_construct_def RESTClientObject_def returned_def lookup_def)

lemma iris_construct_returned:
  "returned (iris_construct a u p w) =
     Inr (Some \<lparr>principal = a, auth = (u, p),
                endpoint = Some (case sdk_iris_endpoint w of None \<Rightarrow> IRIS_ENDPOINT | Some e \<Rightarrow> e),
                xml = Some True\<rparr>)"
  by (simp add: iris_construct_def RESTClientObject_def returned_def lookup_def split: option.splits)

lemma Client_explicit:
  "py_any [a, b, c] \<Longrightarrow>
   Client a b c w =
     (if py_all [a, b, c] then Client_construct a b c w
      else (Inl (ValueError (HELP_MISSING_PARAMS @ Client_doc)), w))"
  by (simp add: Client_def)

lemma iris_client_explicit:
  "py_any [a, b, c] \<Longrightarrow>
   iris_client a b c w =
     (if py_all [a, b, c] then iris_construct a b c (set_sdk a b c w)
      else (Inl (ValueError (HELP_MISSING_PARAMS @ iris_client_doc)), w))"
  by (simp add: iris_client_def)

lemma count_truthy_cases:
  "length (filter truthy [a, b, c]) \<in> {1, 2} \<longleftrightarrow> py_any [a, b, c] \<and> \<not> py_all [a, b, c]"
  "length (filter truthy [a, b, c]) = 3 \<longleftrightarrow> py_all [a, b, c]"
  "py_all [a, b, c] \<Longrightarrow> py_any [a, b, c]"
  by auto

lemma returned_Inr:
  "returned r = Inr (Some obj) \<Longrightarrow> \<exists>h. fst r = Inr h \<and> lookup (snd r) h = Some obj"
  by (auto simp: returned_def split: sum.splits)

text \<open>
  Claim C2. For both resolvers, a call in which exactly one or exactly two of the three
  credential arguments are non-empty raises \<open>ValueError\<close> (the validation error, with the
  help text and the docstring); a call in which all three are non-empty returns a client
  object whose credentials are the three arguments.
\<close>

theorem C2_explicit_arguments:
  "(length (filter truthy [a, b, c]) \<in> {1, 2} \<longrightarrow>
      fst (Client a b c w) = Inl (ValueError (HELP_MISSING_PARAMS @ Client_doc)) \<and>
      fst (iris_client a b c w) = Inl (ValueError (HELP_MISSING_PARAMS @ iris_client_doc))) \<and>
   (length (filter truthy [a, b, c]) = 3 \<longrightarrow>
      (\<exists>h obj. fst (Client a b c w) = Inr h \<and> lookup (snd (Client a b c w)) h = Some obj \<and>
         credentials obj = (a, b, c)) \<and>
      (\<exists>h obj. fst (iris_client a b c w) = Inr h \<and>
         lookup (snd (iris_client a b c w)) h = Some obj \<and> credentials obj = (a, b, c)))"
proof (intro conjI impI)
  assume partial: "length (filter truthy [a, b, c]) \<in> {1, 2}"
  then have "py_any [a, b, c]" and "\<not> py_all [a, b, c]"
    using count_truthy_cases(1) by blast+
  then show "fst (Client a b c w) = Inl (ValueError (HELP_MISSING_PARAMS @ Client_doc))"
    and "fst (iris_client a b c w) = Inl (ValueError (HELP_MISSING_PARAMS @ iris_client_doc))"
    by (simp_all add: Client_explicit iris_client_explicit del: py_any.simps py_all.simps)
next
  assume "length (filter truthy [a, b, c]) = 3"
  then have full: "py_all [a, b, c]" and some: "py_any [a, b, c]"
    using count_truthy_cases(2,3) by blast+
  have "returned (Client a b c w) =
          Inr (Some \<lparr>principal = a, auth = (b, c), endpoint = None, xml = None\<rparr>)"
    using full some
    by (simp add: Client_explicit Client_construct_returned del: py_any.simps py_all.simps)
  from returned_Inr [OF this]
  show "\<exists>h obj. fst (Client a b c w) = Inr h \<and> lookup (snd (Client a b c w)) h = Some obj \<and>
          credentials obj = (a, b, c)"
    by (auto simp: credentials_def)
next
  assume "length (filter truthy [a, b, c]) = 3"
  then have full: "py_all [a, b, c]" and some: "py_any [a, b, c]"
    using count_truthy_cases(2,3) by blast+
  have "\<exists>e. returned (iris_client a b c w) =
          Inr (Some \<lparr>principal = a, auth = (b, c), endpoint = e, xml = Some True\<rparr>)"
    using full some
    by (simp add: iris_client_explicit iris_construct_returned del: py_any.simps py_all.simps)
  then obtain e where "returned (iris_client a b c w) =
          Inr (Some \<lparr>principal = a, auth = (b, c), endpoint = e, xml = Some True\<rparr>)" ..
  from returned_Inr [OF this]
  show "\<exists>h obj. fst (iris_client a b c w) = Inr h \<and>
          lookup (snd (iris_client a b c w)) h = Some obj \<and> credentials obj = (a, b, c)"
    by (auto simp: credentials_def)
qed

text \<open>
  The theorem at \<open>Client('u-1', None, 's-1')\<close> and at \<open>Client('u-1', 't-1', 's-1')\<close>,
  and the same for the dashboard resolver.
\<close>

theorem C2_explicit_arguments_witness:
  "length (filter truthy [Some ''u-1'', None, Some ''s-1'']) \<in> {1, 2} \<and>
   fst (Client (Some ''u-1'') None (Some ''s-1'') world0) =
     Inl (ValueError (HELP_MISSING_PARAMS @ Client_doc)) \<and>
   fst (iris_client (Some ''u-1'') None (Some ''s-1'') world0) =
     Inl (ValueError (HELP_MISSING_PARAMS @ iris_client_doc)) \<and>
   length (filter truthy [Some ''u-1'', Some ''t-1'', Some ''s-1'']) = 3 \<and>
   (\<exists>h obj. fst (Client (Some ''u-1'') (Some ''t-1'') (Some ''s-1'') world0) = Inr h \<and>
      lookup (snd (Client (Some ''u-1'') (Some ''t-1'') (Some ''s-1'') world0)) h = Some obj \<and>
      credentials obj = (Some ''u-1'', Some ''t-1'', Some ''s-1'')) \<and>
   (\<exists>h obj. fst (iris_client (Some ''u-1'') (Some ''t-1'') (Some ''s-1'') world0) = Inr h \<and>
      lookup (snd (iris_client (Some ''u-1'') (Some ''t-1'') (Some ''s-1'') world0)) h = Some obj \<and>
      credentials obj = (Some ''u-1'', Some ''t-1'', Some ''s-1''))"
proof -
  have one: "length (filter truthy [Some ''u-1'', None, Some ''s-1'']) \<in> {1, 2}"
    by (simp add: truthy_def)
  have three: "length (filter truthy [Some ''u-1'', Some ''t-1'', Some ''s-1'']) = 3"
    by (simp add: truthy_def)
  show ?thesis
    using one three
      C2_explicit_arguments [of "Some ''u-1''" None "Some ''s-1''" world0]
      C2_explicit_arguments [of "Some ''u-1''" "Some ''t-1''" "Some ''s-1''" world0]
    by blast
qed

text \<open>
  Claim C3 as stated fails for the dashboard resolver: with the same three non-empty
  arguments, \<open>_iris_client\<close> returns an object with the default endpoint where
  \<open>bandwidth_sdk.iris_endpoint\<close> is \<open>None\<close> and an object with another endpoint where that
  attribute is set, so the result does not depend on the explicit arguments only.
\<close>

theorem C3_iris_endpoint_counterexample:
  "py_any [Some ''u-1'', Some ''t-1'', Some ''s-1''] \<and>
   returned (iris_client (Some ''u-1'') (Some ''t-1'') (Some ''s-1'') world0) =
     Inr (Some \<lparr>principal = Some ''u-1'', auth = (Some ''t-1'', Some ''s-1''),
                endpoint = Some ''https://dashboard.bandwidth.com:443/v1.0/'',
                xml = Some True\<rparr>) \<and>
   returned (iris_client (Some ''u-1'') (Some ''t-1'') (Some ''s-1'')
              (world0\<lparr>sdk_iris_endpoint := Some ''https://example.test/''\<rparr>)) =
     Inr (Some \<lparr>principal = Some ''u-1'', auth = (Some ''t-1'', Some ''s-1''),
                endpoint = Some ''https://example.test/'', xml = Some True\<rparr>) \<and>
   returned (iris_client (Some ''u-1'') (Some ''t-1'') (Some ''s-1'') world0) \<noteq>
   returned (iris_client (Some ''u-1'') (Some ''t-1'') (Some ''s-1'')
              (world0\<lparr>sdk_iris_endpoint := Some ''https://example.test/''\<rparr>))"
  by (simp add: iris_client_def truthy_def iris_construct_returned set_sdk_def world0_def
      IRIS_ENDPOINT_def)

text \<open>
  Claim C3, amended. When at least one explicit credential argument is non-empty, the
  environment variables, the configuration files and the fallback credentials of
  \<open>bandwidth_sdk\<close> have no influence: in every two worlds \<open>w\<close> and \<open>w'\<close>, \<open>Client\<close> gives the
  same error or the same object, and \<open>_iris_client\<close> gives the same error or an object
  with the same credentials. The dashboard object also holds the endpoint, which is
  \<open>bandwidth_sdk.iris_endpoint\<close> unless that is \<open>None\<close>; the whole dashboard result is the
  same whenever the two worlds agree on that one attribute.
\<close>

theorem C3_explicit_arguments_only:
  assumes "py_any [a, b, c]"
  shows "returned (Client a b c w) = returned (Client a b c w') \<and>
         map_sum id (map_option credentials) (returned (iris_client a b c w)) =
         map_sum id (map_option credentials) (returned (iris_client a b c w')) \<and>
         (sdk_iris_endpoint w = sdk_iris_endpoint w' \<longrightarrow>
            returned (iris_client a b c w) = returned (iris_client a b c w'))"
proof (cases "py_all [a, b, c]")
  case True
  with assms show ?thesis
    by (simp add: Client_explicit iris_client_explicit Client_construct_returned
        iris_construct_returned credentials_def set_sdk_def del: py_any.simps py_all.simps)
next
  case False
  with assms show ?thesis
    by (simp add: Client_explicit iris_client_explicit returned_def
        del: py_any.simps py_all.simps)
qed

text \<open>
  The theorem at explicit arguments in a world whose environment is complete and
  well-formed: the outcome is that of the empty world, that is, the arguments.
\<close>

theorem C3_explicit_arguments_only_witness:
  "py_any [Some ''u-1'', Some ''t-1'', Some ''s-1''] \<and>
   returned (Client (Some ''u-1'') (Some ''t-1'') (Some ''s-1'') world_env) =
     Inr (Some \<lparr>principal = Some ''u-1'', auth = (Some ''t-1'', Some ''s-1''),
                endpoint = None, xml = None\<rparr>) \<and>
   map_sum id (map_option credentials)
     (returned (iris_client (Some ''u-1'') (Some ''t-1'') (Some ''s-1'') world_env)) =
     Inr (Some (Some ''u-1'', Some ''t-1'', Some ''s-1'')) \<and>
   sdk_iris_endpoint world_env = sdk_iris_endpoint (world_env\<lparr>environ := Map.empty\<rparr>) \<and>
   returned (iris_client (Some ''u-1'') (Some ''t-1'') (Some ''s-1'') world_env) =
   returned (iris_client (Some ''u-1'') (Some ''t-1'') (Some ''s-1'')
     (world_env\<lparr>environ := Map.empty\<rparr>))"
proof -
  have some: "py_any [Some ''u-1'', Some ''t-1'', Some ''s-1'']"
    by (simp add: truthy_def)
  have "returned (Client (Some ''u-1'') (Some ''t-1'') (Some ''s-1'') world0) =
     Inr (Some \<lparr>principal = Some ''u-1'', auth = (Some ''t-1'', Some ''s-1''),
                endpoint = None, xml = None\<rparr>)"
    by (simp add: Client_def truthy_def Client_construct_returned)
  moreover have "map_sum id (map_option credentials)
     (returned (iris_client (Some ''u-1'') (Some ''t-1'') (Some ''s-1'') world0)) =
     Inr (Some (Some ''u-1'', Some ''t-1'', Some ''s-1''))"
    by (simp add: iris_client_def truthy_def iris_construct_returned credentials_def)
  ultimately show ?thesis
    using some C3_explicit_arguments_only [OF some, of world_env world0]
      C3_explicit_arguments_only [OF some, of world_env "world_env\<lparr>environ := Map.empty\<rparr>"]
    by (simp add: world_env_def)
qed

subsection \<open>The current client\<close>

text \<open>
  Claim C7 as stated fails: \<open>get_client\<close> tests the stored object for truth. For a handle
  that is false in the truth test, \<open>get_client()\<close> after \<open>set_client(h)\<close> calls \<open>Client()\<close>,
  which here resolves the credentials from the environment, constructs a second object,
  returns it and makes it the global client in place of \<open>h\<close>.
\<close>

theorem C7_false_handle_counterexample:
  "lookup world_false_handle 0 \<noteq> None \<and>
   \<not> obj_truth world_false_handle 0 \<and>
   fst (get_client (snd (set_client (Some 0) world_false_handle))) = Inr 1 \<and>
   global_client (snd (get_client (snd (set_client (Some 0) world_false_handle)))) = Some 1 \<and>
   length (heap (snd (get_client (snd (set_client (Some 0) world_false_handle))))) = 2"
  by (simp add: get_client_def truthy_client_def set_client_def world_false_handle_def
      world_env_def world0_def lookup_def Client_def Let_def truthy_def Client_construct_def
      RESTClientObject_def)

text \<open>
  Claim C7, amended. For every handle \<open>h\<close> that is true in Python's truth test, after
  \<open>set_client(h)\<close> the call \<open>get_client()\<close> returns the reference \<open>h\<close> itself and leaves the
  world as it is: no object is constructed and nothing is raised, in every environment,
  so \<open>Client\<close> is not called.
\<close>

theorem C7_set_client_get_client:
  assumes "obj_truth w h"
  shows "get_client (snd (set_client (Some h) w)) = (Inr h, snd (set_client (Some h) w)) \<and>
         heap (snd (get_client (snd (set_client (Some h) w)))) = heap w"
  using assms by (simp add: get_client_def truthy_client_def set_client_def)

text \<open>
  The theorem in the empty world, where every object is true and a call of \<open>Client()\<close>
  would raise.
\<close>

theorem C7_set_client_get_client_witness:
  "obj_truth world0 7 \<and>
   fst (get_client (snd (set_client (Some 7) world0))) = Inr 7 \<and>
   heap (snd (get_client (snd (set_client (Some 7) world0)))) = [] \<and>
   fst (Client None None None world0) =
     Inl (ValueError (''No configuration provided. '' @ Client_doc))"
proof -
  have t: "obj_truth world0 7"
    by (simp add: world0_def)
  show ?thesis
    using t C7_set_client_get_client [OF t]
    by (simp add: Client_def truthy_def world0_def set_client_def)
qed

lemma Client_construct_global:
  "fst (Client_construct u t s w) = Inr (length (heap w))"
  "global_client (snd (Client_construct u t s w)) = Some (length (heap w))"
  "lookup w (length (heap w)) = None"
  "lookup (snd (Client_construct u t s w)) (length (heap w)) =
     Some \<lparr>principal = u, auth = (t, s), endpoint = None, xml = None\<rparr>"
  by (simp_all add: Client_construct_def RESTClientObject_def lookup_def)

lemma Client_success:
  assumes "fst (Client a b c w) = Inr h"
  shows "\<exists>u t s. Client a b c w = Client_construct u t s w"
  using assms
  by (auto simp: Client_def Let_def split: if_splits sum.splits prod.splits
      simp del: py_any.simps py_all.simps)

lemma iris_construct_frame:
  "global_client (snd (iris_construct a u p w)) = global_client w"
  "iris_construct a u p (w\<lparr>global_client := g\<rparr>) =
     (fst (iris_construct a u p w), (snd (iris_construct a u p w))\<lparr>global_client := g\<rparr>)"
  by (simp_all add: iris_construct_def RESTClientObject_def)

lemma set_sdk_frame:
  "global_client (set_sdk a u p w) = global_client w"
  "set_sdk a u p (w\<lparr>global_client := g\<rparr>) = (set_sdk a u p w)\<lparr>global_client := g\<rparr>"
  by (simp_all add: set_sdk_def)

lemma load_config_frame:
  "load_config (w\<lparr>global_client := g\<rparr>) p = load_config w p"
  by (simp add: load_config_def)

lemma iris_client_writes_no_global:
  "global_client (snd (iris_client a b c w)) = global_client w"
  by (simp add: iris_client_def Let_def iris_construct_frame set_sdk_frame
      split: sum.splits prod.splits del: py_any.simps py_all.simps)

lemma iris_client_reads_no_global:
  "iris_client a b c (w\<lparr>global_client := g\<rparr>) =
     (fst (iris_client a b c w), (snd (iris_client a b c w))\<lparr>global_client := g\<rparr>)"
  by (simp add: iris_client_def Let_def iris_construct_frame set_sdk_frame load_config_frame
      split: sum.splits prod.splits del: py_any.simps py_all.simps)

text \<open>
  Claim C8. A call of \<open>Client\<close> that returns makes the returned object the global client,
  and that object did not exist before the call. \<open>_iris_client\<close> leaves the global client
  as it was, and its result does not depend on the global client: with another global
  client \<open>g\<close> it gives the same result and the same world, up to \<open>g\<close>.
\<close>

theorem C8_current_client_state:
  "(fst (Client a b c w) = Inr h \<longrightarrow>
      global_client (snd (Client a b c w)) = Some h \<and>
      lookup w h = None \<and> lookup (snd (Client a b c w)) h \<noteq> None) \<and>
   global_client (snd (iris_client a b c w)) = global_client w \<and>
   iris_client a b c (w\<lparr>global_client := g\<rparr>) =
     (fst (iris_client a b c w), (snd (iris_client a b c w))\<lparr>global_client := g\<rparr>)"
proof (intro conjI impI)
  assume ok: "fst (Client a b c w) = Inr h"
  then obtain u t s where eq: "Client a b c w = Client_construct u t s w"
    using Client_success by blast
  with ok have "h = length (heap w)"
    by (simp add: Client_construct_global)
  with eq show "global_client (snd (Client a b c w)) = Some h"
    and "lookup w h = None" and "lookup (snd (Client a b c w)) h \<noteq> None"
    by (simp_all add: Client_construct_global)
qed (rule iris_client_writes_no_global iris_client_reads_no_global)+

lemma eval_Client_env:
  "Client None None None world_env =
     (Inr 0, world_env\<lparr>heap := [\<lparr>principal = Some ''u-env'', auth = (Some ''t-env'', Some ''s-env''),
                                      endpoint = None, xml = None\<rparr>],
                        global_client := Some 0\<rparr>)"
  by (simp add: Client_def Let_def truthy_def world_env_def world0_def Client_construct_def
      RESTClientObject_def)

text \<open>
  The theorem at \<open>Client()\<close> and \<open>_iris_client()\<close> in a world with a complete
  environment.
\<close>

theorem C8_current_client_state_witness:
  "fst (Client None None None world_env) = Inr 0 \<and>
   global_client (snd (Client None None None world_env)) = Some 0 \<and>
   lookup world_env 0 = None \<and>
   lookup (snd (Client None None None world_env)) 0 \<noteq> None \<and>
   global_client (snd (iris_client None None None world_env)) = None"
proof -
  have ok: "fst (Client None None None world_env) = Inr 0"
    by (simp add: eval_Client_env)
  have "global_client world_env = None"
    by (simp add: world_env_def world0_def)
  with ok show ?thesis
    using C8_current_client_state [of None None None world_env 0 None] by simp
qed

subsection \<open>A configuration file that does not exist\<close>

text \<open>
  Claim C9 as stated fails: with \<open>BANDWIDTH_CONFIG_FILE\<close> naming a missing file the
  exception is a \<open>ValueError\<close>, and so is the exception for partially given arguments;
  the two have the same class.
\<close>

theorem C9_missing_file_counterexample:
  "raised_kind (Client None None None world_missing_file) = Some ''ValueError'' \<and>
   raised_kind (Client (Some ''u-1'') None None world_missing_file) = Some ''ValueError''"
  by (simp add: raised_kind_def Client_def Let_def truthy_def world_missing_file_def world0_def)

text \<open>
  Claim C9, amended. With no non-empty argument, the user or account id variable absent,
  \<open>BANDWIDTH_CONFIG_FILE\<close> set to \<open>p\<close> and no file at \<open>p\<close>, the resolver raises
  \<open>ValueError\<close> and changes nothing; the message contains \<open>p\<close>; the class of the
  exception is that of the validation error, so the two differ in their message only.
\<close>

theorem C9_missing_file:
  assumes "\<not> py_any [a, b, c]"
    and "environ w ''BANDWIDTH_CONFIG_FILE'' = Some p"
    and "\<not> file_exists w p"
  shows "(''BANDWIDTH_USER_ID'' \<notin> dom (environ w) \<longrightarrow>
            Client a b c w = (Inl (ValueError (HELP_CONFIG_FILE_MISSING p @ Client_doc)), w)) \<and>
         (''BANDWIDTH_ACCOUNT_ID'' \<notin> dom (environ w) \<longrightarrow>
            iris_client a b c w =
              (Inl (ValueError (HELP_CONFIG_FILE_MISSING p @ iris_client_doc)), w)) \<and>
         (\<exists>pre post. HELP_CONFIG_FILE_MISSING p = pre @ p @ post) \<and>
         exc_kind (ValueError (HELP_CONFIG_FILE_MISSING p @ Client_doc)) =
           exc_kind (ValueError (HELP_MISSING_PARAMS @ Client_doc))"
proof -
  have "HELP_CONFIG_FILE_MISSING p =
          ''The config file specified: <'' @ p @
          (''> could not be found. If that's the'' @
           '' wrong config file, make sure BANDWIDTH_CONFIG_FILE is set correctly or'' @
           '' not set if you're trying to use .bndsdkrc.'')"
    by (simp add: HELP_CONFIG_FILE_MISSING_def)
  then have "\<exists>pre post. HELP_CONFIG_FILE_MISSING p = pre @ p @ post"
    by blast
  with assms show ?thesis
    by (simp add: Client_def iris_client_def Let_def domIff del: py_any.simps)
qed

text \<open>
  The theorem in a world where \<open>BANDWIDTH_CONFIG_FILE\<close> is \<open>/etc/bw.cfg\<close> and there
  is no such file.
\<close>

theorem C9_missing_file_witness:
  "\<not> py_any [None, None, None] \<and>
   environ world_missing_file ''BANDWIDTH_CONFIG_FILE'' = Some ''/etc/bw.cfg'' \<and>
   \<not> file_exists world_missing_file ''/etc/bw.cfg'' \<and>
   ''BANDWIDTH_USER_ID'' \<notin> dom (environ world_missing_file) \<and>
   ''BANDWIDTH_ACCOUNT_ID'' \<notin> dom (environ world_missing_file) \<and>
   Client None None None world_missing_file =
     (Inl (ValueError (HELP_CONFIG_FILE_MISSING ''/etc/bw.cfg'' @ Client_doc)), world_missing_file) \<and>
   iris_client None None None world_missing_file =
     (Inl (ValueError (HELP_CONFIG_FILE_MISSING ''/etc/bw.cfg'' @ iris_client_doc)),
      world_missing_file)"
proof -
  have h1: "\<not> py_any [None, None, None]"
    by (simp add: truthy_def)
  have h2: "environ world_missing_file ''BANDWIDTH_CONFIG_FILE'' = Some ''/etc/bw.cfg''"
    by (simp add: world_missing_file_def)
  have h3: "\<not> file_exists world_missing_file ''/etc/bw.cfg''"
    by (simp add: world_missing_file_def world0_def)
  have h4: "''BANDWIDTH_USER_ID'' \<notin> dom (environ world_missing_file)"
    and h5: "''BANDWIDTH_ACCOUNT_ID'' \<notin> dom (environ world_missing_file)"
    by (simp_all add: world_missing_file_def world0_def)
  show ?thesis
    using h1 h2 h3 h4 h5 C9_missing_file [OF h1 h2 h3] by simp
qed

subsection \<open>Dashboard credentials from the environment\<close>

text \<open>
  In the environment branch of \<open>_iris_client\<close> the values read from the environment are
  only tested; the object is constructed from the arguments.
\<close>

lemma iris_client_environment_branch:
  assumes "\<not> py_any [a, b, c]"
    and "''BANDWIDTH_ACCOUNT_ID'' \<in> dom (environ w)"
    and "py_all [environ w ''BANDWIDTH_ACCOUNT_ID'', environ w ''BANDWIDTH_USERNAME'',
                 environ w ''BANDWIDTH_PASSWORD'']"
  shows "iris_client a b c w = iris_construct a b c (set_sdk a b c w)"
  using assms by (simp add: iris_client_def Let_def del: py_any.simps py_all.simps)

text \<open>
  Claim C1 does not hold of the code. With \<open>BANDWIDTH_ACCOUNT_ID\<close>, \<open>BANDWIDTH_USERNAME\<close>
  and \<open>BANDWIDTH_PASSWORD\<close> set to \<open>acct\<close>, \<open>user\<close> and \<open>pw\<close>, the call
  \<open>_iris_client()\<close> returns an object whose three credentials are the empty strings of
  the default arguments, and stores the empty string in \<open>bandwidth_sdk.account_id\<close>.
\<close>

theorem C1_environment_values_not_used:
  "environ world_env ''BANDWIDTH_ACCOUNT_ID'' = Some ''acct'' \<and>
   environ world_env ''BANDWIDTH_USERNAME'' = Some ''user'' \<and>
   environ world_env ''BANDWIDTH_PASSWORD'' = Some ''pw'' \<and>
   fst (iris_client (Some []) (Some []) (Some []) world_env) = Inr 0 \<and>
   map_option credentials (lookup (snd (iris_client (Some []) (Some []) (Some []) world_env)) 0) =
     Some (Some [], Some [], Some []) \<and>
   sdk_account_id (snd (iris_client (Some []) (Some []) (Some []) world_env)) = Some []"
  by (simp add: iris_client_def Let_def truthy_def world_env_def world0_def iris_construct_def
      RESTClientObject_def set_sdk_def lookup_def credentials_def)

section \<open>Properties of the events module\<close>

subsection \<open>Mappings and the constructor\<close>

lemma from_api_distinct_aux:
  "distinct (map fst acc) \<Longrightarrow>
   distinct (map fst (fold (\<lambda>(k, v) acc. AList.update (underscoreize k) v acc) data acc))"
  by (induction data arbitrary: acc) (auto simp: distinct_update)

lemma from_api_distinct: "distinct (map fst (from_api data))"
  by (simp add: from_api_def from_api_distinct_aux)

lemma setattr_keys:
  "fst ` set (fold (\<lambda>(attr, val) d. if attr \<in> F then AList.update attr val d else d) kw acc)
     \<subseteq> F \<union> fst ` set acc"
proof (induction kw arbitrary: acc)
  case Nil
  show ?case by simp
next
  case (Cons p kw)
  obtain a v where p: "p = (a, v)" by (cases p)
  show ?case
  proof (cases "a \<in> F")
    case True
    with Cons [of "AList.update a v acc"] p show ?thesis
      by (auto simp: dom_update)
  next
    case False
    with Cons [of acc] p show ?thesis by simp
  qed
qed

lemma setattr_keys_Nil:
  "fst ` set (fold (\<lambda>(attr, val) d. if attr \<in> F then AList.update attr val d else d) kw [])
     \<subseteq> F"
  using setattr_keys [of F kw "[]"] by simp

lemma setattr_map_of:
  "distinct (map fst kw) \<Longrightarrow>
   map_of (fold (\<lambda>(attr, val) d. if attr \<in> F then AList.update attr val d else d) kw acc) k =
     (if k \<in> F \<and> k \<in> fst ` set kw then map_of kw k else map_of acc k)"
proof (induction kw arbitrary: acc)
  case Nil
  show ?case by simp
next
  case (Cons p kw)
  obtain a v where p: "p = (a, v)" by (cases p)
  from Cons.prems p have d: "distinct (map fst kw)" and notin: "a \<notin> fst ` set kw"
    by auto
  show ?case
    using Cons.IH [OF d, of "AList.update a v acc"] Cons.IH [OF d, of acc] p notin
    by (auto simp: update_conv)
qed

lemma EventType_init_cls: "cls (EventType_init c kw) = c"
  by (simp add: EventType_init_def Let_def)

lemma EventType_init_keys: "fst ` set (attrs (EventType_init c kw)) \<subseteq> set (fields c)"
  by (simp add: EventType_init_def Let_def setattr_keys_Nil)

lemma EventType_init_from:
  assumes "distinct (map fst kw)" and "map_of kw ''from'' = Some v" and "py_bool v"
    and "''from_'' \<in> set (fields c)"
  shows "map_of (attrs (EventType_init c kw)) ''from_'' = Some v"
proof -
  let ?kw2 = "AList.update ''from_'' v (AList.delete ''from'' kw)"
  have "distinct (map fst ?kw2)"
    using assms(1) by (simp add: distinct_update distinct_delete)
  moreover have "map_of ?kw2 ''from_'' = Some v"
    by (simp add: update_conv)
  moreover have "''from_'' \<in> fst ` set ?kw2"
    by (simp add: dom_update)
  ultimately show ?thesis
    using assms(2-4) by (simp add: EventType_init_def Let_def setattr_map_of)
qed

text \<open>
  When \<open>create\<close> returns an event, the payload was decoded, its discriminator is a
  string of the registry, no key is \<open>self\<close>, and the event is what the constructor body
  makes of the normalised payload.
\<close>

lemma create_Inr:
  assumes "create data kwargs = Inr ev"
  shows "\<exists>d s. event_as_dict data kwargs = Inr d \<and>
           (case map_of d ''event_type'' of None \<Rightarrow> PStr [] | Some x \<Rightarrow> x) = PStr s \<and>
           map_of events s = Some (cls ev) \<and> ''self'' \<notin> fst ` set d \<and>
           ev = EventType_init (cls ev) d"
proof -
  from assms obtain d where d: "event_as_dict data kwargs = Inr d"
    by (auto simp: create_def split: sum.splits)
  let ?v = "case map_of d ''event_type'' of None \<Rightarrow> PStr [] | Some x \<Rightarrow> x"
  from assms d obtain c where c: "events_get ?v = Inr (Some c)" and n: "new_event c d = Inr ev"
    by (auto simp: create_def split: sum.splits option.splits)
  from n have self: "''self'' \<notin> fst ` set d" and ev: "ev = EventType_init c d"
    by (auto simp: new_event_def split: if_splits)
  from c obtain s where s: "?v = PStr s" and m: "map_of events s = Some c"
    by (auto simp: events_get_def split: if_splits pyval.splits)
  from ev have "cls ev = c" by (simp add: EventType_init_cls)
  with d s m self ev show ?thesis by auto
qed

lemma event_as_dict_distinct:
  "event_as_dict data kwargs = Inr d \<Longrightarrow> distinct (map fst d)"
  by (auto simp: event_as_dict_def from_api_distinct split: option.splits sum.splits)

subsection \<open>Declared fields\<close>

text \<open>
  The attributes of a constructed event are among the declared fields of its class, and
  an undeclared key is not an attribute of it.
\<close>

lemma create_attrs_subset:
  assumes "create data kwargs = Inr ev"
  shows "fst ` set (attrs ev) \<subseteq> set (fields (cls ev))"
proof -
  from create_Inr [OF assms] obtain d where "ev = EventType_init (cls ev) d" by blast
  then show ?thesis using EventType_init_keys [of "cls ev" d] by simp
qed

lemma create_drops_undeclared_keys:
  assumes "create data kwargs = Inr ev" and "k \<notin> set (fields (cls ev))"
  shows "map_of (attrs ev) k = None"
  using create_attrs_subset [OF assms(1)] assms(2)
  by (auto simp: map_of_eq_None_iff)

text \<open>
  A decoded payload with a registered discriminator and without the key \<open>self\<close> is
  constructed.
\<close>

lemma create_constructs:
  assumes "event_as_dict data kwargs = Inr d"
    and "map_of d ''event_type'' = Some (PStr s)" and "map_of events s = Some c"
    and "''self'' \<notin> fst ` set d"
  shows "create data kwargs = Inr (EventType_init c d)"
  using assms by (simp add: create_def events_get_def new_event_def)

text \<open>
  The hangup payload with an extraneous key: the event has \<open>call_id\<close> and no attribute
  for the extraneous key, under either spelling.
\<close>

lemma create_hangup_example:
  "create None [(''eventType'', PStr ''hangup''), (''callId'', PStr ''c1''),
                (''extraneousField'', PStr ''x'')] =
     Inr (Event HangupCallEvent [(''event_type'', PStr ''hangup''), (''call_id'', PStr ''c1'')])"
  by (simp add: create_def event_as_dict_def from_api_def uppercase_def lowercase_def
      events_get_def events_def new_event_def EventType_init_def)

lemma create_hangup_example_attributes:
  "getattr (Event HangupCallEvent [(''event_type'', PStr ''hangup''), (''call_id'', PStr ''c1'')])
     ''call_id'' = Inr (PStr ''c1'') \<and>
   getattr (Event HangupCallEvent [(''event_type'', PStr ''hangup''), (''call_id'', PStr ''c1'')])
     ''extraneous_field'' = Inl (AttributeError ''extraneous_field'') \<and>
   getattr (Event HangupCallEvent [(''event_type'', PStr ''hangup''), (''call_id'', PStr ''c1'')])
     ''extraneousField'' = Inl (AttributeError ''extraneousField'')"
  by (simp add: getattr_def)

text \<open>
  Claim C4 does not hold of the code for every payload key. The hangup payload with the
  additional key \<open>self\<close>, which is not a declared field, is not constructed with that key
  dropped: the call of the class raises \<open>TypeError\<close>.
\<close>

theorem C4_key_self_raises:
  "event_as_dict None [(''eventType'', PStr ''hangup''), (''callId'', PStr ''c1''),
                       (''self'', PStr ''x'')] =
     Inr [(''event_type'', PStr ''hangup''), (''call_id'', PStr ''c1''), (''self'', PStr ''x'')] \<and>
   ''self'' \<notin> set (fields HangupCallEvent) \<and>
   create None [(''eventType'', PStr ''hangup''), (''callId'', PStr ''c1''),
                (''self'', PStr ''x'')] = Inl TypeError_multiple_values"
  by (simp add: create_def event_as_dict_def from_api_def uppercase_def lowercase_def
      events_get_def events_def new_event_def)

subsection \<open>Unknown events\<close>

text \<open>
  Let \<open>d\<close> be the normalised payload and \<open>v\<close> its \<open>event_type\<close> value, or the empty string
  when the key is absent. If \<open>v\<close> is hashable and is not a string of the registry,
  \<open>create\<close> raises the unknown-event \<open>ValueError\<close> for \<open>d\<close>; so it does when the key is
  absent; and whenever \<open>create\<close> returns an event, \<open>v\<close> is a string of the registry and
  the event is of the class registered for it.
\<close>

lemma create_unknown_event:
  assumes "event_as_dict data kwargs = Inr d"
    and "v = (case map_of d ''event_type'' of None \<Rightarrow> PStr [] | Some x \<Rightarrow> x)"
  shows "(hashable v \<and> (\<forall>s. v = PStr s \<longrightarrow> s \<notin> fst ` set events) \<longrightarrow>
            create data kwargs = Inl (ValueError_unknown_event d)) \<and>
         (map_of d ''event_type'' = None \<longrightarrow>
            create data kwargs = Inl (ValueError_unknown_event d)) \<and>
         (\<forall>ev. create data kwargs = Inr ev \<longrightarrow>
            (\<exists>s. v = PStr s \<and> map_of events s = Some (cls ev)))"
proof (intro conjI impI allI)
  assume h: "hashable v \<and> (\<forall>s. v = PStr s \<longrightarrow> s \<notin> fst ` set events)"
  then have "events_get v = Inr None"
    by (cases v) (auto simp: events_get_def map_of_eq_None_iff)
  with assms show "create data kwargs = Inl (ValueError_unknown_event d)"
    by (simp add: create_def)
next
  assume "map_of d ''event_type'' = None"
  with assms(2) have "v = PStr []" by simp
  then have "events_get v = Inr None"
    by (simp add: events_get_def events_def)
  with assms show "create data kwargs = Inl (ValueError_unknown_event d)"
    by (simp add: create_def)
next
  fix ev
  assume "create data kwargs = Inr ev"
  from create_Inr [OF this] assms
  show "\<exists>s. v = PStr s \<and> map_of events s = Some (cls ev)"
    by auto
qed

lemma eval_discriminators:
  "event_as_dict None [(''eventType'', PStr ''bogus'')] = Inr [(''event_type'', PStr ''bogus'')]"
  "event_as_dict None [(''callId'', PStr ''c1'')] = Inr [(''call_id'', PStr ''c1'')]"
  "event_as_dict None [(''eventType'', PStr ''sms'')] = Inr [(''event_type'', PStr ''sms'')]"
  "create None [(''eventType'', PStr ''sms'')] =
     Inr (Event SmsEvent [(''event_type'', PStr ''sms'')])"
  by (simp_all add: create_def event_as_dict_def from_api_def uppercase_def lowercase_def
      events_get_def events_def new_event_def EventType_init_def)

text \<open>
  The payloads \<open>{"eventType": "bogus"}\<close>, \<open>{"callId": "c1"}\<close> and \<open>{"eventType": "sms"}\<close>.
\<close>

lemma create_unknown_event_examples:
  "event_as_dict None [(''eventType'', PStr ''bogus'')] = Inr [(''event_type'', PStr ''bogus'')] \<and>
   hashable (PStr ''bogus'') \<and> ''bogus'' \<notin> fst ` set events \<and>
   create None [(''eventType'', PStr ''bogus'')] =
     Inl (ValueError_unknown_event [(''event_type'', PStr ''bogus'')]) \<and>
   event_as_dict None [(''callId'', PStr ''c1'')] = Inr [(''call_id'', PStr ''c1'')] \<and>
   map_of [(''call_id'', PStr ''c1'')] ''event_type'' = None \<and>
   create None [(''callId'', PStr ''c1'')] =
     Inl (ValueError_unknown_event [(''call_id'', PStr ''c1'')]) \<and>
   create None [(''eventType'', PStr ''sms'')] =
     Inr (Event SmsEvent [(''event_type'', PStr ''sms'')]) \<and>
   map_of events ''sms'' = Some SmsEvent"
proof -
  have reg: "''bogus'' \<notin> fst ` set events"
    by (simp add: events_def)
  show ?thesis
    using reg eval_discriminators
      create_unknown_event [OF eval_discriminators(1), of "PStr ''bogus''"]
      create_unknown_event [OF eval_discriminators(2), of "PStr []"]
      create_unknown_event [OF eval_discriminators(3), of "PStr ''sms''"]
    by simp
qed

text \<open>
  Discriminators that are not strings but hashable (\<open>None\<close>, a number, a boolean) are
  unknown events.
\<close>

lemma create_non_string_event_type:
  "create None [(''eventType'', PNone)] =
     Inl (ValueError_unknown_event [(''event_type'', PNone)])"
  "create None [(''eventType'', PInt 1)] =
     Inl (ValueError_unknown_event [(''event_type'', PInt 1)])"
  "create None [(''eventType'', PBool True)] =
     Inl (ValueError_unknown_event [(''event_type'', PBool True)])"
  by (simp_all add: create_def event_as_dict_def from_api_def uppercase_def lowercase_def
      events_get_def)

text \<open>
  Claim C5 does not hold of the code for every value of \<open>event_type\<close>. A payload whose
  \<open>eventType\<close> is a list has an \<open>event_type\<close> value that is not a registered string, and
  \<open>create\<close> does not raise the unknown-event \<open>ValueError\<close>: the lookup in the registry
  raises \<open>TypeError\<close> before the test for an unknown event is reached.
\<close>

theorem C5_unhashable_event_type_raises:
  "event_as_dict None [(''eventType'', PList [PStr ''hangup''])] =
     Inr [(''event_type'', PList [PStr ''hangup''])] \<and>
   create None [(''eventType'', PList [PStr ''hangup''])] = Inl TypeError_unhashable \<and>
   event_exc_kind TypeError_unhashable = ''TypeError''"
  by (simp add: create_def event_as_dict_def from_api_def uppercase_def lowercase_def
      events_get_def)

subsection \<open>The key from\<close>

text \<open>
  Claim C6 as stated fails: an incomingcall payload whose \<open>from\<close> is the empty string
  gives an event whose \<open>from_\<close> is \<open>None\<close>, not the empty string, because the value is
  stored under \<open>from_\<close> only if it is true.
\<close>

theorem C6_empty_from_counterexample:
  "event_as_dict None [(''eventType'', PStr ''incomingcall''), (''from'', PStr [])] =
     Inr [(''event_type'', PStr ''incomingcall''), (''from'', PStr [])] \<and>
   ''from_'' \<in> set (fields IncomingCallEvent) \<and>
   create None [(''eventType'', PStr ''incomingcall''), (''from'', PStr [])] =
     Inr (Event IncomingCallEvent [(''event_type'', PStr ''incomingcall'')]) \<and>
   getattr (Event IncomingCallEvent [(''event_type'', PStr ''incomingcall'')]) ''from_'' =
     Inr PNone \<and>
   PNone \<noteq> PStr []"
  by (simp add: create_def event_as_dict_def from_api_def uppercase_def lowercase_def
      events_get_def events_def new_event_def EventType_init_def getattr_def)

text \<open>
  Claim C6, amended. If \<open>create\<close> returns an event, the normalised payload has the key
  \<open>from\<close> with a value that is true in Python's truth test, and \<open>from_\<close> is a declared
  field of the event's class, then the event's \<open>from_\<close> is that value; \<open>from\<close> itself is
  not an attribute of the event.
\<close>

theorem C6_from_renamed:
  assumes "event_as_dict data kwargs = Inr d" and "create data kwargs = Inr ev"
    and "map_of d ''from'' = Some v" and "py_bool v"
    and "''from_'' \<in> set (fields (cls ev))"
  shows "getattr ev ''from_'' = Inr v \<and> map_of (attrs ev) ''from'' = None"
proof -
  from create_Inr [OF assms(2)] assms(1) have ev: "ev = EventType_init (cls ev) d"
    by auto
  have "map_of (attrs (EventType_init (cls ev) d)) ''from_'' = Some v"
    using event_as_dict_distinct [OF assms(1)] assms(3-5) by (rule EventType_init_from)
  with ev have "map_of (attrs ev) ''from_'' = Some v" by simp
  then have "getattr ev ''from_'' = Inr v"
    by (simp add: getattr_def)
  moreover have "''from'' \<notin> set (fields (cls ev))"
    by (cases "cls ev") simp_all
  then have "map_of (attrs ev) ''from'' = None"
    using assms(2) by (simp add: create_drops_undeclared_keys)
  ultimately show ?thesis by simp
qed

lemma eval_incomingcall:
  "event_as_dict None [(''eventType'', PStr ''incomingcall''), (''from'', PStr ''+15551234567'')] =
     Inr [(''event_type'', PStr ''incomingcall''), (''from'', PStr ''+15551234567'')]"
  "create None [(''eventType'', PStr ''incomingcall''), (''from'', PStr ''+15551234567'')] =
     Inr (Event IncomingCallEvent [(''event_type'', PStr ''incomingcall''),
                                   (''from_'', PStr ''+15551234567'')])"
  by (simp_all add: create_def event_as_dict_def from_api_def uppercase_def lowercase_def
      events_get_def events_def new_event_def EventType_init_def)

text \<open>
  The theorem at an incomingcall payload with \<open>from\<close> = \<open>+15551234567\<close>.
\<close>

theorem C6_from_renamed_witness:
  "create None [(''eventType'', PStr ''incomingcall''), (''from'', PStr ''+15551234567'')] =
     Inr (Event IncomingCallEvent [(''event_type'', PStr ''incomingcall''),
                                   (''from_'', PStr ''+15551234567'')]) \<and>
   py_bool (PStr ''+15551234567'') \<and>
   getattr (Event IncomingCallEvent [(''event_type'', PStr ''incomingcall''),
                                     (''from_'', PStr ''+15551234567'')]) ''from_'' =
     Inr (PStr ''+15551234567'')"
  using C6_from_renamed [OF eval_incomingcall, of "PStr ''+15551234567''"] eval_incomingcall(2)
  by simp

subsection \<open>Playback status\<close>

text \<open>
  Claim C10. For every payload, a \<open>PlaybackCallEvent\<close> returned by \<open>create\<close> has
  \<open>status\<close> equal to \<open>None\<close> and \<open>done\<close> equal to \<open>False\<close>, because \<open>status\<close> is not
  among the declared fields of the class.
\<close>

theorem C10_playback_status:
  assumes "create data kwargs = Inr ev" and "cls ev = PlaybackCallEvent"
  shows "getattr ev ''status'' = Inr PNone \<and> done_property ev = Inr False"
proof -
  have "''status'' \<notin> set (fields (cls ev))"
    using assms(2) by simp
  with create_attrs_subset [OF assms(1)] have "''status'' \<notin> fst ` set (attrs ev)"
    by blast
  then have "map_of (attrs ev) ''status'' = None"
    by (simp add: map_of_eq_None_iff)
  with assms(2) have "getattr ev ''status'' = Inr PNone"
    by (simp add: getattr_def)
  with assms(2) show ?thesis
    by (simp add: done_property_def)
qed

lemma eval_playback:
  "create None [(''eventType'', PStr ''playback''), (''callId'', PStr ''c1''),
                (''status'', PStr ''done'')] =
     Inr (Event PlaybackCallEvent [(''event_type'', PStr ''playback''), (''call_id'', PStr ''c1'')])"
  by (simp add: create_def event_as_dict_def from_api_def uppercase_def lowercase_def
      events_get_def events_def new_event_def EventType_init_def)

text \<open>
  The theorem at a playback payload that contains \<open>status\<close> = \<open>done\<close>.
\<close>

theorem C10_playback_status_witness:
  "create None [(''eventType'', PStr ''playback''), (''callId'', PStr ''c1''),
                (''status'', PStr ''done'')] =
     Inr (Event PlaybackCallEvent [(''event_type'', PStr ''playback''), (''call_id'', PStr ''c1'')]) \<and>
   getattr (Event PlaybackCallEvent [(''event_type'', PStr ''playback''), (''call_id'', PStr ''c1'')])
     ''status'' = Inr PNone \<and>
   done_property
     (Event PlaybackCallEvent [(''event_type'', PStr ''playback''), (''call_id'', PStr ''c1'')]) =
     Inr False"
  using C10_playback_status [OF eval_playback] eval_playback by simp

end
